theory Spec2Isabelle
  imports Complex_Main "HOL-Library.Product_Lexorder" "HOL-Library.Multiset"
begin

section \<open>Values: floating-point numbers with NaN and infinities\<close>

text \<open>
  The arrays of the program hold NumPy \<open>float64\<close> values. The embedding keeps the
  special values of IEEE 754 that the code's logic branches on (NaN, the two
  infinities) and takes the finite values as real numbers: arithmetic on finite
  values is exact, without rounding, overflow or a signed zero. The theorems of the
  claims below do not rest on how a finite result is rounded; the one section that
  uses exactness says so.
\<close>

datatype fl = NInf | Fin real | PInf | NaN

datatype error = ValueError | ZeroDivisionError | OverflowError | IndexError

fun isnan :: "fl \<Rightarrow> bool" where
  "isnan NaN = True"
| "isnan _ = False"

fun isfinite :: "fl \<Rightarrow> bool" where
  "isfinite (Fin _) = True"
| "isfinite _ = False"

fun fneg :: "fl \<Rightarrow> fl" where
  "fneg NaN = NaN"
| "fneg PInf = NInf"
| "fneg NInf = PInf"
| "fneg (Fin a) = Fin (- a)"

fun fadd :: "fl \<Rightarrow> fl \<Rightarrow> fl" where
  "fadd NaN _ = NaN"
| "fadd _ NaN = NaN"
| "fadd PInf NInf = NaN"
| "fadd NInf PInf = NaN"
| "fadd PInf _ = PInf"
| "fadd _ PInf = PInf"
| "fadd NInf _ = NInf"
| "fadd _ NInf = NInf"
| "fadd (Fin a) (Fin b) = Fin (a + b)"

definition fsub :: "fl \<Rightarrow> fl \<Rightarrow> fl" where
  "fsub a b = fadd a (fneg b)"

text \<open>The sign of a value that is not NaN: \<open>-1\<close>, \<open>0\<close> or \<open>1\<close>.\<close>

fun fsgn :: "fl \<Rightarrow> int" where
  "fsgn NaN = 0"
| "fsgn PInf = 1"
| "fsgn NInf = - 1"
| "fsgn (Fin a) = (if a < 0 then - 1 else if a = 0 then 0 else 1)"

definition inf_of_sign :: "int \<Rightarrow> fl" where
  "inf_of_sign s = (if s < 0 then NInf else PInf)"

fun fmul :: "fl \<Rightarrow> fl \<Rightarrow> fl" where
  "fmul NaN _ = NaN"
| "fmul _ NaN = NaN"
| "fmul (Fin a) (Fin b) = Fin (a * b)"
| "fmul a b = (if fsgn a * fsgn b = 0 then NaN else inf_of_sign (fsgn a * fsgn b))"

text \<open>
  Division: a finite nonzero value over zero is an infinity, zero over zero and
  infinity over infinity are NaN, a finite value over an infinity is zero.
\<close>

fun fdiv :: "fl \<Rightarrow> fl \<Rightarrow> fl" where
  "fdiv NaN _ = NaN"
| "fdiv _ NaN = NaN"
| "fdiv (Fin a) (Fin b) =
     (if b = 0 then (if a = 0 then NaN else inf_of_sign (fsgn (Fin a))) else Fin (a / b))"
| "fdiv (Fin a) _ = Fin 0"
| "fdiv a (Fin b) = inf_of_sign (if b < 0 then - fsgn a else fsgn a)"
| "fdiv _ _ = NaN"

text \<open>The comparisons \<open><=\<close> and \<open>>=\<close> of IEEE 754: false as soon as one side is NaN.\<close>

fun fle :: "fl \<Rightarrow> fl \<Rightarrow> bool" where
  "fle NaN _ = False"
| "fle _ NaN = False"
| "fle NInf _ = True"
| "fle _ PInf = True"
| "fle (Fin a) (Fin b) = (a \<le> b)"
| "fle _ _ = False"

definition fge :: "fl \<Rightarrow> fl \<Rightarrow> bool" where
  "fge a b = fle b a"

text \<open>
  The order \<open>np.sort\<close> puts values in: minus infinity, the finite values, plus
  infinity, NaN last. It is given as a key into a lexicographic pair.
\<close>

fun sort_rank :: "fl \<Rightarrow> nat \<times> real" where
  "sort_rank NInf = (0, 0)"
| "sort_rank (Fin a) = (1, a)"
| "sort_rank PInf = (2, 0)"
| "sort_rank NaN = (3, 0)"

definition np_sort :: "fl list \<Rightarrow> fl list" where
  "np_sort xs = sort_key sort_rank xs"

section \<open>NumPy reductions\<close>

definition fsum :: "fl list \<Rightarrow> fl" where
  "fsum xs = foldl fadd (Fin 0) xs"

text \<open>\<open>np.mean\<close>: the sum over the count; NaN for an empty list (zero over zero).\<close>

definition np_mean :: "fl list \<Rightarrow> fl" where
  "np_mean xs = fdiv (fsum xs) (Fin (real (length xs)))"

text \<open>\<open>np.nanmean\<close>: the mean of the entries that are not NaN.\<close>

definition nanmean :: "fl list \<Rightarrow> fl" where
  "nanmean xs = np_mean (filter (\<lambda>x. \<not> isnan x) xs)"

text \<open>
  The median of a list without NaN: the middle element of the sorted list, or the
  mean of the two middle elements when the length is even; NaN for an empty list.
\<close>

definition median_sorted :: "fl list \<Rightarrow> fl" where
  "median_sorted xs =
     (let s = np_sort xs; n = length s in
      if n = 0 then NaN
      else if odd n then s ! (n div 2)
      else fdiv (fadd (s ! (n div 2 - 1)) (s ! (n div 2))) (Fin 2))"

text \<open>\<open>np.median\<close>: NaN as soon as one entry is NaN.\<close>

definition np_median :: "fl list \<Rightarrow> fl" where
  "np_median xs = (if \<exists>x \<in> set xs. isnan x then NaN else median_sorted xs)"

text \<open>\<open>np.nanmedian\<close>: the median of the entries that are not NaN.\<close>

definition nanmedian :: "fl list \<Rightarrow> fl" where
  "nanmedian xs = median_sorted (filter (\<lambda>x. \<not> isnan x) xs)"

text \<open>\<open>a.min()\<close>: raises on an empty array, NaN as soon as one entry is NaN.\<close>

definition fmin2 :: "fl \<Rightarrow> fl \<Rightarrow> fl" where
  "fmin2 a b = (if isnan a \<or> isnan b then NaN else if fle a b then a else b)"

fun np_min :: "fl list \<Rightarrow> error + fl" where
  "np_min [] = Inl ValueError"
| "np_min (x # xs) = Inr (foldl fmin2 x xs)"

section \<open>Shapes, slices and reshape\<close>

text \<open>
  A two-dimensional array: its rows, and its column count, which an array with no
  row still has. \<open>wf_grid\<close> says that every row has that many cells. A flux grid
  is indexed \<open>[wavelength_index, time_index]\<close>.
\<close>

record 'a arr2 =
  ncols :: nat
  rows :: "'a list list"

type_synonym grid = "fl arr2"

definition nrows :: "'a arr2 \<Rightarrow> nat" where
  "nrows g = length (rows g)"

definition wf_grid :: "'a arr2 \<Rightarrow> bool" where
  "wf_grid g = list_all (\<lambda>r. length r = ncols g) (rows g)"

text \<open>The length of \<open>a[:k]\<close> for a Python integer \<open>k\<close> on a sequence of length \<open>n\<close>.\<close>

definition slice_stop :: "int \<Rightarrow> nat \<Rightarrow> nat" where
  "slice_stop k n = (if k < 0 then nat (int n + k) else min (nat k) n)"

text \<open>
  The shape \<open>reshape\<close> gives an array of \<open>n_elems\<close> elements for the requested
  dimensions: every negative dimension is an unknown one, more than one is refused,
  one is inferred when the known dimensions have a nonzero product that divides the
  size, and without one the product must be the size.
\<close>

definition fix_unknown_dimension :: "nat \<Rightarrow> int list \<Rightarrow> error + nat list" where
  "fix_unknown_dimension n_elems dims =
     (let n_unknown = length (filter (\<lambda>d. d < 0) dims);
          s_known = prod_list (filter (\<lambda>d. 0 \<le> d) dims) in
      if 1 < n_unknown then Inl ValueError
      else if n_unknown = 1 then
        (if s_known = 0 \<or> int n_elems mod s_known \<noteq> 0 then Inl ValueError
         else Inr (map (\<lambda>d. nat (if d < 0 then int n_elems div s_known else d)) dims))
      else if int n_elems \<noteq> s_known then Inl ValueError
      else Inr (map nat dims))"

text \<open>Row-major grouping: \<open>n\<close> consecutive groups of \<open>k\<close> elements.\<close>

fun chunks :: "nat \<Rightarrow> nat \<Rightarrow> 'a list \<Rightarrow> 'a list list" where
  "chunks 0 k xs = []"
| "chunks (Suc n) k xs = take k xs # chunks n k (drop k xs)"

text \<open>
  \<open>a[::step]\<close>. For a positive step these are the elements at the indices
  \<open>0, step, 2 step, ...\<close>; a negative step walks back from the last element; a zero
  step raises.
\<close>

function stride :: "nat \<Rightarrow> 'a list \<Rightarrow> 'a list" where
  "stride step [] = []"
| "stride step (x # xs) = x # stride step (drop (step - 1) xs)"
  by pat_completeness auto
termination
  by (relation "measure (\<lambda>(step, xs). length xs)") auto

definition slice_step :: "int \<Rightarrow> 'a list \<Rightarrow> error + 'a list" where
  "slice_step step xs =
     (if step = 0 then Inl ValueError
      else if 0 < step then Inr (stride (nat step) xs)
      else Inr (stride (nat (- step)) (rev xs)))"

text \<open>\<open>a[:, :k]\<close> for a natural \<open>k\<close>, and \<open>a[k:, :]\<close>.\<close>

definition take_cols :: "nat \<Rightarrow> 'a arr2 \<Rightarrow> 'a arr2" where
  "take_cols k a = \<lparr>ncols = min k (ncols a), rows = map (take k) (rows a)\<rparr>"

definition drop_rows :: "nat \<Rightarrow> 'a arr2 \<Rightarrow> 'a arr2" where
  "drop_rows k a = \<lparr>ncols = ncols a, rows = drop k (rows a)\<rparr>"

text \<open>
  \<open>np.meshgrid(x, y)\<close>: two arrays of shape \<open>(len(y), len(x))\<close>, the first repeating
  \<open>x\<close> in every row, the second holding \<open>y[i]\<close> all along row \<open>i\<close>.
\<close>

definition meshgrid :: "'a list \<Rightarrow> 'a list \<Rightarrow> 'a arr2 \<times> 'a arr2" where
  "meshgrid x y =
     (\<lparr>ncols = length x, rows = map (\<lambda>_. x) y\<rparr>,
      \<lparr>ncols = length x, rows = map (\<lambda>v. replicate (length x) v) y\<rparr>)"

text \<open>\<open>np.unique\<close>: the distinct values in sorted order (NaN, if any, once and last).\<close>

definition np_unique :: "fl list \<Rightarrow> fl list" where
  "np_unique xs = remdups_adj (np_sort xs)"

section \<open>utils: the binners\<close>


text \<open>
  What a caller may pass as \<open>bin_size\<close>: a Python integer or a float. \<open>int(...)\<close>
  truncates a finite float towards zero and raises on NaN and on an infinity.
\<close>

datatype pynum = PyInt int | PyFloat fl

definition trunc :: "real \<Rightarrow> int" where
  "trunc r = (if r < 0 then \<lceil>r\<rceil> else \<lfloor>r\<rfloor>)"

fun py_int :: "pynum \<Rightarrow> error + int" where
  "py_int (PyInt n) = Inr n"
| "py_int (PyFloat (Fin r)) = Inr (trunc r)"
| "py_int (PyFloat NaN) = Inl ValueError"
| "py_int (PyFloat _) = Inl OverflowError"

text \<open>
  \<open>bin_flux_array(flux_data, bin_size)\<close>: after \<open>int(bin_size)\<close> the integer
  division raises on zero; the column slice keeps \<open>binned_timepoints * bin_size\<close>
  columns, the reshape to \<open>(num_wavelengths, binned_timepoints, bin_size)\<close> groups
  them in row-major order and \<open>np.nanmean(..., axis=2)\<close> reduces each group.
\<close>

definition bin_flux_array :: "grid \<Rightarrow> pynum \<Rightarrow> error + grid" where
  "bin_flux_array flux_data bin_size_arg =
     (case py_int bin_size_arg of
        Inl e \<Rightarrow> Inl e
      | Inr bin_size \<Rightarrow>
          let num_wavelengths = nrows flux_data;
              num_timepoints = ncols flux_data in
          if bin_size = 0 then Inl ZeroDivisionError
          else
            let binned_timepoints = int num_timepoints div bin_size;
                stop = slice_stop (binned_timepoints * bin_size) num_timepoints;
                kept = concat (map (take stop) (rows flux_data)) in
            (case fix_unknown_dimension (length kept)
                    [int num_wavelengths, binned_timepoints, bin_size] of
               Inl e \<Rightarrow> Inl e
             | Inr shape \<Rightarrow>
                 Inr \<lparr>ncols = shape ! 1,
                      rows = map (\<lambda>block. map nanmean (chunks (shape ! 1) (shape ! 2) block))
                               (chunks (shape ! 0) (shape ! 1 * shape ! 2) kept)\<rparr>))"

section \<open>data_processor: normalize_spectrum\<close>

text \<open>
  The argument of \<open>normalize_spectrum\<close>: a one-dimensional array, a two-dimensional
  one, or an array of another dimensionality, of which only \<open>ndim\<close> is kept.
\<close>

datatype ndarray = Arr1 "fl list" | Arr2 grid | ArrN nat

definition normalize_spectrum :: "ndarray \<Rightarrow> error + ndarray" where
  "normalize_spectrum spectral_data =
     (case spectral_data of
        Arr1 xs \<Rightarrow>
          let median_spectrum = nanmedian xs in
          Inr (Arr1 (map (\<lambda>x. fdiv x median_spectrum) xs))
      | Arr2 g \<Rightarrow>
          Inr (Arr2 \<lparr>ncols = ncols g,
                     rows = map (\<lambda>r. let median_spectrum = nanmedian r in
                                      map (\<lambda>x. fdiv x median_spectrum) r) (rows g)\<rparr>)
      | ArrN d \<Rightarrow> Inl ValueError)"

section \<open>data_loader: extract_miri_data\<close>

text \<open>
  The MIRI table: rows over the five columns the extractor reads. All columns of a
  table have the same length, the number of rows.
\<close>

record miri_row =
  wla :: fl
  wlb :: fl
  fluxa :: fl
  fluxb :: fl
  MJD :: fl

type_synonym miri_table = "miri_row list"

text \<open>\<open>column.reshape(n, -1)\<close> on a one-dimensional column.\<close>

definition reshape_rows :: "fl list \<Rightarrow> nat \<Rightarrow> error + grid" where
  "reshape_rows column n =
     (case fix_unknown_dimension (length column) [int n, - 1] of
        Inl e \<Rightarrow> Inl e
      | Inr shape \<Rightarrow> Inr \<lparr>ncols = shape ! 1, rows = chunks (shape ! 0) (shape ! 1) column\<rparr>)"

definition extract_miri_data ::
  "miri_table \<Rightarrow> error + (fl list \<times> fl list \<times> fl list \<times> grid \<times> grid)" where
  "extract_miri_data miri_table =
     (let wavelengths_a = map wla miri_table;
          wavelengths_b = map wlb miri_table;
          spectra_a = map fluxa miri_table;
          spectra_b = map fluxb miri_table;
          modified_julian_dates = map MJD miri_table;
          unique_wavelengths_a = np_unique wavelengths_a;
          unique_wavelengths_b = np_unique wavelengths_b;
          unique_times = np_unique modified_julian_dates in
      case reshape_rows spectra_a (length unique_wavelengths_a) of
        Inl e \<Rightarrow> Inl e
      | Inr spectra_a_2d \<Rightarrow>
          (case reshape_rows spectra_b (length unique_wavelengths_b) of
             Inl e \<Rightarrow> Inl e
           | Inr spectra_b_2d \<Rightarrow>
               Inr (unique_times, unique_wavelengths_a, unique_wavelengths_b,
                    spectra_a_2d, spectra_b_2d)))"

section \<open>lightcurve_plotter\<close>

text \<open>The two wavelength bands, in micrometres, both ends included.\<close>

definition ch4_range :: "fl \<times> fl" where
  "ch4_range = (Fin (214 / 100), Fin (25 / 10))"

definition co_range :: "fl \<times> fl" where
  "co_range = (Fin (45 / 10), Fin (505 / 100))"

definition in_range :: "fl \<times> fl \<Rightarrow> fl \<Rightarrow> bool" where
  "in_range band v = (fge v (fst band) \<and> fle v (snd band))"

text \<open>
  What \<open>plot_enhanced_lightcurve_map\<close> hands to the renderer: the trimmed time
  grid, wavelength grid and z grid, and the two band masks.
\<close>

record lightcurve_map =
  time_grid :: grid
  wavelength_grid :: grid
  z_data :: grid
  ch4_mask :: "bool arr2"
  co_mask :: "bool arr2"

definition band_mask :: "fl \<times> fl \<Rightarrow> grid \<Rightarrow> bool arr2" where
  "band_mask band g = \<lparr>ncols = ncols g, rows = map (map (in_range band)) (rows g)\<rparr>"

text \<open>
  \<open>plot_enhanced_lightcurve_map(flux_data, wavelengths, times, title, bin_size,
  output_file, max_frames, plot_type)\<close>, up to the band masks; what follows in the
  source only renders these arrays and writes them to a file. The Python function
  has no return value on any path, so the result says how far a call gets: \<open>Inl\<close> is
  an exception (the handler logs it and raises it again), \<open>Inr None\<close> is one of the
  two places where the source logs an error and returns early, and \<open>Inr (Some m)\<close>
  is a call that reaches the renderer with the arrays \<open>m\<close>.
\<close>

definition plot_enhanced_lightcurve_map ::
  "grid \<Rightarrow> fl list \<Rightarrow> fl list \<Rightarrow> pynum \<Rightarrow> string \<Rightarrow> error + lightcurve_map option" where
  "plot_enhanced_lightcurve_map flux_data0 wavelengths times0 bin_size_arg plot_type =
     (case py_int bin_size_arg of
        Inl e \<Rightarrow> Inl e
      | Inr bin_size \<Rightarrow>
     (case bin_flux_array flux_data0 (PyInt bin_size) of
        Inl e \<Rightarrow> Inl e
      | Inr flux_data \<Rightarrow>
     (case slice_step bin_size times0 of
        Inl e \<Rightarrow> Inl e
      | Inr times1 \<Rightarrow>
          let num_times = ncols flux_data in
          if num_times = 0 then Inr None
          else
     (case np_min times1 of
        Inl e \<Rightarrow> Inl e
      | Inr t0 \<Rightarrow>
          let time_hours = map (\<lambda>t. fmul (fsub t t0) (Fin 24)) times1;
              time_grid1 = take_cols num_times (fst (meshgrid time_hours wavelengths));
              wavelength_grid1 = take_cols num_times (snd (meshgrid time_hours wavelengths)) in
     (case (if plot_type = ''variability'' then
              Inr \<lparr>ncols = ncols flux_data,
                   rows = map (\<lambda>r. let median_flux = nanmedian r in
                                    map (\<lambda>x. if isfinite x
                                              then fmul (fsub (fdiv x median_flux) (Fin 1)) (Fin 100)
                                              else NaN) r)
                            (rows flux_data)\<rparr>
            else if plot_type = ''flux'' then Inr flux_data
            else Inl ValueError) of
        Inl e \<Rightarrow> Inl e
      | Inr z_data1 \<Rightarrow>
          let wavelength_grid2 = drop_rows 60 wavelength_grid1;
              time_grid2 = drop_rows 60 time_grid1;
              z_data2 = drop_rows 60 z_data1 in
          if \<not> list_ex (list_ex isfinite) (rows z_data2) then Inr None
          else Inr (Some \<lparr>time_grid = time_grid2,
                          wavelength_grid = wavelength_grid2,
                          z_data = z_data2,
                          ch4_mask = band_mask ch4_range wavelength_grid2,
                          co_mask = band_mask co_range wavelength_grid2\<rparr>))))))"

text \<open>
  \<open>np.where(mask)[0]\<close> on the wavelengths, \<open>flux_data[indices, :]\<close> (an index past
  the last row raises) and \<open>np.mean(..., axis=0)\<close>.
\<close>

definition band_indices :: "fl \<times> fl \<Rightarrow> fl list \<Rightarrow> nat list" where
  "band_indices band wavelengths =
     filter (\<lambda>i. in_range band (wavelengths ! i)) [0..<length wavelengths]"

definition select_rows :: "nat list \<Rightarrow> grid \<Rightarrow> error + grid" where
  "select_rows indices g =
     (if list_ex (\<lambda>i. nrows g \<le> i) indices then Inl IndexError
      else Inr \<lparr>ncols = ncols g, rows = map (\<lambda>i. rows g ! i) indices\<rparr>)"

definition mean_axis0 :: "grid \<Rightarrow> fl list" where
  "mean_axis0 g = map (\<lambda>j. np_mean (map (\<lambda>r. r ! j) (rows g))) [0..<ncols g]"

text \<open>The band's series before it is normalized: one mean per time bin.\<close>

definition band_series :: "fl \<times> fl \<Rightarrow> fl list \<Rightarrow> grid \<Rightarrow> error + fl list" where
  "band_series band wavelengths flux_data =
     (case select_rows (band_indices band wavelengths) flux_data of
        Inl e \<Rightarrow> Inl e
      | Inr selected \<Rightarrow> Inr (mean_axis0 selected))"

text \<open>
  \<open>plot_specific_wavelength_lightcurves(flux_data, wavelengths, times, title,
  output_file, bin_size)\<close>, up to the two normalized light curves: the result is
  \<open>(time_hours, ch4_lightcurve, co_lightcurve)\<close>.
\<close>

definition plot_specific_wavelength_lightcurves ::
  "grid \<Rightarrow> fl list \<Rightarrow> fl list \<Rightarrow> pynum \<Rightarrow> error + (fl list \<times> fl list \<times> fl list)" where
  "plot_specific_wavelength_lightcurves flux_data0 wavelengths times0 bin_size_arg =
     (case py_int bin_size_arg of
        Inl e \<Rightarrow> Inl e
      | Inr bin_size \<Rightarrow>
     (case bin_flux_array flux_data0 (PyInt bin_size) of
        Inl e \<Rightarrow> Inl e
      | Inr flux_data \<Rightarrow>
     (case slice_step bin_size times0 of
        Inl e \<Rightarrow> Inl e
      | Inr times1 \<Rightarrow>
     (case np_min times1 of
        Inl e \<Rightarrow> Inl e
      | Inr t0 \<Rightarrow>
          let time_hours = map (\<lambda>t. fmul (fsub t t0) (Fin 24)) times1 in
     (case band_series ch4_range wavelengths flux_data of
        Inl e \<Rightarrow> Inl e
      | Inr ch4_lightcurve \<Rightarrow>
     (case band_series co_range wavelengths flux_data of
        Inl e \<Rightarrow> Inl e
      | Inr co_lightcurve \<Rightarrow>
          Inr (time_hours,
               map (\<lambda>v. fdiv v (np_median ch4_lightcurve)) ch4_lightcurve,
               map (\<lambda>v. fdiv v (np_median co_lightcurve)) co_lightcurve)))))))"

section \<open>Shapes and example inputs\<close>

text \<open>An array has shape \<open>(m, n)\<close>: \<open>m\<close> rows, each of \<open>n\<close> cells.\<close>

definition shape_is :: "'a arr2 \<Rightarrow> nat \<Rightarrow> nat \<Rightarrow> bool" where
  "shape_is a m n = (nrows a = m \<and> ncols a = n \<and> wf_grid a)"

text \<open>
  A flux grid of 61 wavelengths and 5 time points with its axes, what binning by 2
  makes of it, and the arrays \<open>plot_enhanced_lightcurve_map\<close> builds from it, given
  the one row of z that survives the trim.
\<close>

abbreviation example_flux :: grid where
  "example_flux \<equiv>
     \<lparr>ncols = 5,
      rows = replicate 60 [Fin 1, Fin 2, Fin 3, Fin 4, Fin 9] @ [[Fin 5, NaN, Fin 7, Fin 8, Fin 9]]\<rparr>"

abbreviation example_wavelengths :: "fl list" where
  "example_wavelengths \<equiv> replicate 60 (Fin (23 / 10)) @ [Fin (46 / 10)]"

abbreviation example_times :: "fl list" where
  "example_times \<equiv> [Fin 0, Fin 1, Fin 2, Fin 3, Fin 4]"

abbreviation example_binned :: grid where
  "example_binned \<equiv>
     \<lparr>ncols = 2, rows = replicate 60 [Fin (3 / 2), Fin (7 / 2)] @ [[Fin 5, Fin (15 / 2)]]\<rparr>"

abbreviation example_map :: "fl list list \<Rightarrow> lightcurve_map" where
  "example_map z \<equiv>
     \<lparr>time_grid = \<lparr>ncols = 2, rows = [[Fin 0, Fin 48]]\<rparr>,
      wavelength_grid = \<lparr>ncols = 2, rows = [[Fin (23 / 5), Fin (23 / 5)]]\<rparr>,
      z_data = \<lparr>ncols = 2, rows = z\<rparr>,
      ch4_mask = \<lparr>ncols = 2, rows = [[False, False]]\<rparr>,
      co_mask = \<lparr>ncols = 2, rows = [[True, True]]\<rparr>\<rparr>"

text \<open>The grid of the specification's binning scenario, and two MIRI tables.\<close>

abbreviation small_flux :: grid where
  "small_flux \<equiv> \<lparr>ncols = 4, rows = [[Fin 1, Fin 2, Fin 3, Fin 4], [Fin 5, Fin 6, Fin 7, Fin 8]]\<rparr>"

abbreviation table3 :: miri_table where
  "table3 \<equiv>
     [\<lparr>wla = Fin 1, wlb = Fin 1, fluxa = Fin 10, fluxb = Fin 20, MJD = Fin 0\<rparr>,
      \<lparr>wla = Fin 1, wlb = Fin 2, fluxa = Fin 11, fluxb = Fin 21, MJD = Fin 1\<rparr>,
      \<lparr>wla = Fin 1, wlb = Fin 2, fluxa = Fin 12, fluxb = Fin 22, MJD = Fin 2\<rparr>]"

abbreviation table4 :: miri_table where
  "table4 \<equiv>
     [\<lparr>wla = Fin 1, wlb = Fin 3, fluxa = Fin 10, fluxb = Fin 20, MJD = Fin 0\<rparr>,
      \<lparr>wla = Fin 1, wlb = Fin 3, fluxa = Fin 11, fluxb = Fin 21, MJD = Fin 1\<rparr>,
      \<lparr>wla = Fin 2, wlb = Fin 4, fluxa = Fin 12, fluxb = Fin 22, MJD = Fin 0\<rparr>,
      \<lparr>wla = Fin 2, wlb = Fin 4, fluxa = Fin 13, fluxb = Fin 23, MJD = Fin 1\<rparr>]"

section \<open>Facts about grouping and reshape\<close>

lemma length_chunks: "length (chunks n k xs) = n"
  by (induction n arbitrary: xs) auto


lemma chunks_take: "n * k \<le> m \<Longrightarrow> chunks n k (take m xs) = chunks n k xs"
proof (induction n arbitrary: xs m)
  case 0
  then show ?case by simp
next
  case (Suc n)
  from Suc.prems have k: "k \<le> m" and rest: "n * k \<le> m - k" by auto
  have "drop k (take m xs) = take (m - k) (drop k xs)"
    by (simp add: drop_take)
  with Suc.IH [OF rest] k show ?case by (simp add: min_absorb2)
qed

lemma chunks_concat:
  "list_all (\<lambda>r. length r = m) rs \<Longrightarrow> chunks (length rs) m (concat rs) = rs"
  by (induction rs) auto


lemma fix_unknown_dimension_exact:
  "0 \<le> q \<Longrightarrow> 0 < b \<Longrightarrow> int n = int w * q * b \<Longrightarrow>
   fix_unknown_dimension n [int w, q, b] = Inr [w, nat q, nat b]"
  by (auto simp: fix_unknown_dimension_def Let_def mult.assoc)

lemma end_index_pos:
  assumes "0 < b"
  shows "slice_stop (b * (int n div b)) n = nat b * (n div nat b)"
proof -
  from assms obtain k where b: "b = int k" and k: "0 < k"
    by (metis nat_0_iff nat_eq_iff2 not_gr_zero order_less_le)
  have "b * (int n div b) = int (k * (n div k))"
    by (simp add: b zdiv_int)
  moreover have "k * (n div k) \<le> n" by simp
  ultimately show ?thesis
    unfolding slice_stop_def b by (simp del: of_nat_mult)
qed



lemma length_concat_uniform:
  "list_all (\<lambda>r. length r = m) rs \<Longrightarrow> length (concat rs) = length rs * m"
  by (induction rs) auto

lemma bin_flux_array_int:
  assumes "0 < b" and "wf_grid g"
  shows "bin_flux_array g (PyInt b) =
    Inr \<lparr>ncols = ncols g div nat b,
         rows = map (\<lambda>r. map nanmean (chunks (ncols g div nat b) (nat b) r)) (rows g)\<rparr>"
proof -
  let ?k = "nat b" and ?T = "ncols g" and ?W = "length (rows g)"
  let ?q = "?T div ?k"
  let ?stop = "?k * ?q"
  let ?kept = "concat (map (take ?stop) (rows g))"
  have q: "int ?T div b = int ?q"
    using assms(1) by (simp add: zdiv_int)
  have stop: "slice_stop (int ?T div b * b) ?T = ?stop"
    using end_index_pos [OF assms(1), of ?T] by (simp add: mult.commute)
  have stop': "slice_stop (int ?q * b) ?T = ?stop"
    using stop by (simp only: q)
  have uniform: "list_all (\<lambda>r. length r = ?stop) (map (take ?stop) (rows g))"
    using assms(2) by (auto simp: wf_grid_def list_all_iff min_absorb2)
  have len: "length ?kept = ?W * ?stop"
    using length_concat_uniform [OF uniform] by simp
  have "int (length ?kept) = int ?W * int ?q * b"
    using assms(1) by (simp only: len) simp
  from fix_unknown_dimension_exact [OF _ assms(1) this]
  have shape: "fix_unknown_dimension (length ?kept) [int ?W, int ?q, b] = Inr [?W, ?q, ?k]"
    by simp
  have blocks: "chunks ?W (?q * ?k) ?kept = map (take ?stop) (rows g)"
    using chunks_concat [OF uniform] by (simp add: mult.commute)
  have "map (\<lambda>block. map nanmean (chunks ?q ?k block)) (map (take ?stop) (rows g))
      = map (\<lambda>r. map nanmean (chunks ?q ?k r)) (rows g)"
    by (simp add: chunks_take mult.commute)
  with shape blocks assms(1) show ?thesis
    unfolding bin_flux_array_def Let_def nrows_def
    by (simp add: stop stop' q del: of_nat_mult)
qed

section \<open>Facts about the binners and the time axis\<close>

lemma length_stride:
  "0 < k \<Longrightarrow> length (stride k xs) = (length xs + k - 1) div k"
proof (induction k xs rule: stride.induct)
  case (1 step)
  then show ?case by simp
next
  case (2 step x xs)
  show ?case
  proof (cases "step - 1 \<le> length xs")
    case True
    with 2 have "length (stride step (drop (step - 1) xs)) = length xs div step"
      by simp
    moreover have "(Suc (length xs) + step - 1) div step = Suc (length xs div step)"
      using "2.prems" by (simp add: div_add_self2)
    ultimately show ?thesis by simp
  next
    case False
    then have "drop (step - 1) xs = []" by simp
    moreover from False "2.prems" have "Suc (length xs) + step - 1 = step + length xs"
      and "length xs < step" by simp_all
    then have "(Suc (length xs) + step - 1) div step = 1"
      by (simp only: div_add_self1) simp
    ultimately show ?thesis by simp
  qed
qed



lemma bin_flux_array_py_int:
  "bin_flux_array g b = (case py_int b of Inl e \<Rightarrow> Inl e | Inr n \<Rightarrow> bin_flux_array g (PyInt n))"
  by (simp add: bin_flux_array_def split: sum.splits)




section \<open>Facts about shapes\<close>

lemma shape_is_drop_rows:
  "shape_is a m n \<Longrightarrow> shape_is (drop_rows k a) (m - k) n"
  by (auto simp: shape_is_def drop_rows_def nrows_def wf_grid_def list_all_iff dest: in_set_dropD)

lemma shape_is_take_cols:
  "shape_is a m n \<Longrightarrow> k \<le> n \<Longrightarrow> shape_is (take_cols k a) m k"
  by (auto simp: shape_is_def take_cols_def nrows_def wf_grid_def list_all_iff min_absorb1)

lemma shape_is_meshgrid:
  "shape_is (fst (meshgrid x y)) (length y) (length x)"
  "shape_is (snd (meshgrid x y)) (length y) (length x)"
  by (auto simp: shape_is_def meshgrid_def nrows_def wf_grid_def list_all_iff)

lemma shape_is_band_mask:
  "shape_is a m n \<Longrightarrow> shape_is (band_mask band a) m n"
  by (auto simp: shape_is_def band_mask_def nrows_def wf_grid_def list_all_iff)

lemma shape_is_binned:
  assumes "0 < n" and "wf_grid g" and "bin_flux_array g (PyInt n) = Inr f"
  shows "shape_is f (nrows g) (ncols g div nat n)"
  using assms(3) unfolding bin_flux_array_int [OF assms(1,2)]
  by (auto simp: shape_is_def nrows_def wf_grid_def list_all_iff length_chunks)

section \<open>Facts about the map builder\<close>

text \<open>What a run that reaches the band masks went through.\<close>

lemma plot_map_SomeD:
  assumes "plot_enhanced_lightcurve_map g wl ts b pt = Inr (Some r)"
  obtains n f ts1 t0 z where
    "py_int b = Inr n"
    "bin_flux_array g (PyInt n) = Inr f"
    "slice_step n ts = Inr ts1"
    "ncols f \<noteq> 0"
    "np_min ts1 = Inr t0"
    "pt = ''variability'' \<and>
       z = \<lparr>ncols = ncols f,
            rows = map (\<lambda>r. map (\<lambda>x. if isfinite x
                                       then fmul (fsub (fdiv x (nanmedian r)) (Fin 1)) (Fin 100)
                                       else NaN) r) (rows f)\<rparr>
     \<or> pt = ''flux'' \<and> z = f"
    "list_ex (list_ex isfinite) (rows (drop_rows 60 z))"
    "time_grid r = drop_rows 60 (take_cols (ncols f)
        (fst (meshgrid (map (\<lambda>t. fmul (fsub t t0) (Fin 24)) ts1) wl)))"
    "wavelength_grid r = drop_rows 60 (take_cols (ncols f)
        (snd (meshgrid (map (\<lambda>t. fmul (fsub t t0) (Fin 24)) ts1) wl)))"
    "z_data r = drop_rows 60 z"
    "ch4_mask r = band_mask ch4_range (wavelength_grid r)"
    "co_mask r = band_mask co_range (wavelength_grid r)"
  using assms unfolding plot_enhanced_lightcurve_map_def Let_def
  by (auto split: sum.splits if_splits)



text \<open>The runs on the example grid.\<close>

lemma example_wf: "wf_grid example_flux"
  by (simp add: wf_grid_def list_all_iff)

lemma example_binning: "bin_flux_array example_flux (PyInt 2) = Inr example_binned"
  by code_simp

lemma example_flux_run:
  "plot_enhanced_lightcurve_map example_flux example_wavelengths example_times (PyInt 2) ''flux''
     = Inr (Some (example_map [[Fin 5, Fin (15 / 2)]]))"
  by code_simp

lemma example_variability_run:
  "plot_enhanced_lightcurve_map example_flux example_wavelengths example_times (PyInt 2)
     ''variability'' = Inr (Some (example_map [[Fin (- 20), Fin 20]]))"
  by code_simp

section \<open>Facts about medians and the table reshape\<close>

lemma np_median_no_nan: "\<not> list_ex isnan s \<Longrightarrow> np_median s = nanmedian s"
proof -
  assume "\<not> list_ex isnan s"
  then have "filter (\<lambda>x. \<not> isnan x) s = s" and "\<not> (\<exists>x \<in> set s. isnan x)"
    by (auto simp: list_ex_iff filter_id_conv)
  then show ?thesis by (simp add: np_median_def nanmedian_def)
qed

lemma np_median_nan: "list_ex isnan s \<Longrightarrow> np_median s = NaN"
  by (simp add: np_median_def list_ex_iff)

lemma fdiv_NaN: "fdiv v NaN = NaN"
  by (cases v) simp_all

lemma fix_unknown_dimension_rows:
  "fix_unknown_dimension m [int n, - 1] =
     (if n = 0 \<or> m mod n \<noteq> 0 then Inl ValueError else Inr [n, m div n])"
  by (auto simp: fix_unknown_dimension_def Let_def zmod_int [symmetric] zdiv_int [symmetric])

lemma reshape_rows_eq:
  "reshape_rows column n =
     (if n = 0 \<or> length column mod n \<noteq> 0 then Inl ValueError
      else Inr \<lparr>ncols = length column div n, rows = chunks n (length column div n) column\<rparr>)"
  by (simp add: reshape_rows_def fix_unknown_dimension_rows)

lemma concat_chunks: "concat (chunks n k xs) = take (n * k) xs"
proof (induction n arbitrary: xs)
  case 0
  then show ?case by simp
next
  case (Suc n)
  have "take k xs @ take (n * k) (drop k xs) = take (k + n * k) xs"
    by (simp add: take_add)
  with Suc show ?case by simp
qed

lemma wf_chunks: "n * k = length xs \<Longrightarrow> list_all (\<lambda>r. length r = k) (chunks n k xs)"
proof (induction n arbitrary: xs)
  case 0
  then show ?case by simp
next
  case (Suc n)
  then have "n * k = length (drop k xs)" and "k \<le> length xs" by auto
  with Suc.IH show ?case by (simp add: min_absorb2)
qed

lemma np_unique_nonempty: "xs \<noteq> [] \<Longrightarrow> np_unique xs \<noteq> []"
proof -
  assume "xs \<noteq> []"
  then have "np_sort xs \<noteq> []"
    by (metis np_sort_def length_sort length_0_conv)
  then show ?thesis by (simp add: np_unique_def)
qed

lemma reshape_rows_shape:
  assumes "reshape_rows column n = Inr a"
  shows "shape_is a n (length column div n) \<and> concat (rows a) = column"
proof -
  from assms have n: "0 < n" "length column mod n = 0"
    and a: "a = \<lparr>ncols = length column div n, rows = chunks n (length column div n) column\<rparr>"
    by (auto simp: reshape_rows_eq split: if_splits)
  from n have len: "n * (length column div n) = length column"
    by (metis mult.commute dvd_div_mult_self mod_eq_0_iff_dvd)
  then show ?thesis
    by (simp add: a shape_is_def nrows_def wf_grid_def length_chunks wf_chunks concat_chunks)
qed

section \<open>Normalizing by the median, with exact arithmetic\<close>

text \<open>
  Dividing a list by a finite nonzero number \<open>c\<close> keeps the sorted order when \<open>c\<close> is
  positive and reverses it when \<open>c\<close> is negative, so the median of the quotients is
  the quotient of the median. With the exact arithmetic of this embedding the
  NaN-aware median of \<open>normalize_spectrum x\<close> is therefore 1 whenever that of \<open>x\<close>
  is finite and not zero. These facts say nothing about the rounding of
  \<open>float64\<close>, where the quotient \<open>x / m\<close> and the mean of the two middle values are
  each rounded.
\<close>

lemma inj_sort_rank: "inj sort_rank"
proof (rule injI)
  fix x y assume "sort_rank x = sort_rank y"
  then show "x = y" by (cases x; cases y) simp_all
qed

lemma isnan_fdiv: "c \<noteq> 0 \<Longrightarrow> isnan (fdiv x (Fin c)) = isnan x"
  by (cases x) (simp_all add: inf_of_sign_def)

lemma sort_rank_fdiv_pos:
  "0 < c \<Longrightarrow> (sort_rank (fdiv x (Fin c)) \<le> sort_rank (fdiv y (Fin c))) = (sort_rank x \<le> sort_rank y)"
  by (cases x; cases y) (simp_all add: inf_of_sign_def divide_le_cancel)

lemma sort_rank_fdiv_neg:
  "c < 0 \<Longrightarrow> \<not> isnan x \<Longrightarrow> \<not> isnan y \<Longrightarrow>
   (sort_rank (fdiv x (Fin c)) \<le> sort_rank (fdiv y (Fin c))) = (sort_rank y \<le> sort_rank x)"
  by (cases x; cases y) (simp_all add: inf_of_sign_def divide_le_cancel)

lemma np_sort_fdiv_pos:
  assumes "0 < c"
  shows "np_sort (map (\<lambda>x. fdiv x (Fin c)) xs) = map (\<lambda>x. fdiv x (Fin c)) (np_sort xs)"
  unfolding np_sort_def
proof (rule sort_key_inj_key_eq)
  let ?d = "\<lambda>x. fdiv x (Fin c)"
  show "mset (map ?d xs) = mset (map ?d (sort_key sort_rank xs))" by simp
  show "inj_on sort_rank (set (map ?d xs))"
    using inj_sort_rank by (rule inj_on_subset) simp
  have "sorted_wrt (\<lambda>x y. sort_rank x \<le> sort_rank y) (sort_key sort_rank xs)"
    using sorted_sort_key [of sort_rank xs] by (simp add: sorted_map)
  then have "sorted_wrt (\<lambda>x y. sort_rank (?d x) \<le> sort_rank (?d y)) (sort_key sort_rank xs)"
    by (rule sorted_wrt_mono_rel [rotated]) (simp add: sort_rank_fdiv_pos [OF assms])
  then show "sorted (map sort_rank (map ?d (sort_key sort_rank xs)))"
    by (simp add: sorted_map sorted_wrt_map)
qed

lemma np_sort_fdiv_neg:
  assumes "c < 0" and "list_all (\<lambda>x. \<not> isnan x) xs"
  shows "np_sort (map (\<lambda>x. fdiv x (Fin c)) xs) = rev (map (\<lambda>x. fdiv x (Fin c)) (np_sort xs))"
  unfolding np_sort_def
proof (rule sort_key_inj_key_eq)
  let ?d = "\<lambda>x. fdiv x (Fin c)"
  let ?s = "sort_key sort_rank xs"
  show "mset (map ?d xs) = mset (rev (map ?d ?s))" by simp
  show "inj_on sort_rank (set (map ?d xs))"
    using inj_sort_rank by (rule inj_on_subset) simp
  have nn: "\<not> isnan x" if "x \<in> set ?s" for x
    using that assms(2) by (simp add: list_all_iff)
  have "sorted_wrt (\<lambda>x y. sort_rank x \<le> sort_rank y) ?s"
    using sorted_sort_key [of sort_rank xs] by (simp add: sorted_map)
  then have "sorted_wrt (\<lambda>x y. sort_rank (?d y) \<le> sort_rank (?d x)) ?s"
    by (rule sorted_wrt_mono_rel [rotated]) (simp add: sort_rank_fdiv_neg [OF assms(1)] nn)
  then have "sorted_wrt (\<lambda>x y. sort_rank (?d x) \<le> sort_rank (?d y)) (rev ?s)"
    by (simp add: sorted_wrt_rev)
  then show "sorted (map sort_rank (rev (map ?d ?s)))"
    by (simp add: sorted_map sorted_wrt_map rev_map)
qed

lemma mean2_scale:
  assumes "fdiv (fadd a b) (Fin 2) = Fin m" and "c \<noteq> 0"
  shows "fdiv (fadd (fdiv a (Fin c)) (fdiv b (Fin c))) (Fin 2) = Fin (m / c)"
  using assms by (cases a; cases b) (auto simp: inf_of_sign_def field_simps split: if_splits)

lemma fadd_commute: "fadd a b = fadd b a"
  by (cases a; cases b) simp_all

lemma length_np_sort: "length (np_sort xs) = length xs"
  by (simp add: np_sort_def)

lemma np_sort_Nil_iff: "np_sort xs = [] \<longleftrightarrow> xs = []"
  by (metis length_np_sort length_0_conv)

lemma median_sorted_Nil: "median_sorted [] = NaN"
  by (simp add: median_sorted_def np_sort_def)

lemma median_sorted_odd:
  "odd (length xs) \<Longrightarrow> median_sorted xs = np_sort xs ! (length xs div 2)"
  by (auto simp: median_sorted_def Let_def length_np_sort np_sort_Nil_iff)

lemma median_sorted_even:
  "even (length xs) \<Longrightarrow> xs \<noteq> [] \<Longrightarrow>
   median_sorted xs =
     fdiv (fadd (np_sort xs ! (length xs div 2 - 1)) (np_sort xs ! (length xs div 2))) (Fin 2)"
  by (simp add: median_sorted_def Let_def length_np_sort np_sort_Nil_iff)

lemma median_sorted_scale:
  assumes "median_sorted xs = Fin m" and "c \<noteq> 0" and "list_all (\<lambda>x. \<not> isnan x) xs"
  shows "median_sorted (map (\<lambda>x. fdiv x (Fin c)) xs) = Fin (m / c)"
proof -
  let ?d = "\<lambda>x. fdiv x (Fin c)"
  let ?s = "np_sort xs" and ?n = "length xs"
  from assms(1) have ne: "xs \<noteq> []"
    by (auto simp: median_sorted_Nil)
  then have pos: "0 < ?n" and h: "?n div 2 < ?n" by simp_all
  show ?thesis
  proof (cases "odd ?n")
    case True
    with assms(1) have mid: "?s ! (?n div 2) = Fin m"
      by (simp add: median_sorted_odd)
    have "np_sort (map ?d xs) ! (?n div 2) = ?d (?s ! (?n div 2))"
    proof (cases "0 < c")
      case True
      then show ?thesis using h by (simp add: np_sort_fdiv_pos length_np_sort)
    next
      case False
      with assms(2) have c: "c < 0" by simp
      from \<open>odd ?n\<close> have "?n - Suc (?n div 2) = ?n div 2"
        by presburger
      then show ?thesis
        using h by (simp add: np_sort_fdiv_neg [OF c assms(3)] length_np_sort rev_nth)
    qed
    with True mid assms(2) show ?thesis
      by (simp add: median_sorted_odd)
  next
    case False
    then have even: "even ?n" by simp
    with pos have two: "?n div 2 - 1 < ?n" "0 < ?n div 2"
      by presburger+
    from assms(1) ne even have mid:
      "fdiv (fadd (?s ! (?n div 2 - 1)) (?s ! (?n div 2))) (Fin 2) = Fin m"
      by (simp add: median_sorted_even)
    have pair: "fadd (np_sort (map ?d xs) ! (?n div 2 - 1)) (np_sort (map ?d xs) ! (?n div 2))
        = fadd (?d (?s ! (?n div 2 - 1))) (?d (?s ! (?n div 2)))"
    proof (cases "0 < c")
      case True
      then show ?thesis using h two by (simp add: np_sort_fdiv_pos length_np_sort)
    next
      case False
      with assms(2) have c: "c < 0" by simp
      from even pos have i1: "?n - Suc (?n div 2 - 1) = ?n div 2"
        and i2: "?n - Suc (?n div 2) = ?n div 2 - 1"
        by presburger+
      have "np_sort (map ?d xs) ! (?n div 2 - 1) = ?d (?s ! (?n div 2))"
        using two h i1 by (simp add: np_sort_fdiv_neg [OF c assms(3)] length_np_sort rev_nth)
      moreover have "np_sort (map ?d xs) ! (?n div 2) = ?d (?s ! (?n div 2 - 1))"
        using two h i2 by (simp add: np_sort_fdiv_neg [OF c assms(3)] length_np_sort rev_nth)
      ultimately show ?thesis by (simp add: fadd_commute)
    qed
    from mean2_scale [OF mid assms(2)] pair even ne show ?thesis
      by (simp add: median_sorted_even)
  qed
qed

lemma nanmedian_scale:
  assumes "nanmedian xs = Fin m" and "c \<noteq> 0"
  shows "nanmedian (map (\<lambda>x. fdiv x (Fin c)) xs) = Fin (m / c)"
proof -
  have "filter (\<lambda>x. \<not> isnan x) (map (\<lambda>x. fdiv x (Fin c)) xs)
      = map (\<lambda>x. fdiv x (Fin c)) (filter (\<lambda>x. \<not> isnan x) xs)"
    by (simp add: filter_map o_def isnan_fdiv [OF assms(2)])
  moreover have "list_all (\<lambda>x. \<not> isnan x) (filter (\<lambda>x. \<not> isnan x) xs)"
    by (simp add: list_all_iff)
  ultimately show ?thesis
    using assms median_sorted_scale unfolding nanmedian_def by simp
qed


lemma normalize_spectrum_median_1d:
  assumes "nanmedian xs = Fin m" and "m \<noteq> 0"
  shows "\<exists>ys. normalize_spectrum (Arr1 xs) = Inr (Arr1 ys) \<and> nanmedian ys = Fin 1"
  using nanmedian_scale [OF assms] assms
  by (simp add: normalize_spectrum_def)

lemma normalize_spectrum_twice_1d:
  assumes "nanmedian xs = Fin m" and "m \<noteq> 0"
  shows "\<exists>ys zs. normalize_spectrum (Arr1 xs) = Inr (Arr1 ys) \<and>
           normalize_spectrum (Arr1 ys) = Inr (Arr1 zs) \<and> nanmedian zs = Fin 1"
proof -
  from normalize_spectrum_median_1d [OF assms] obtain ys where
    ys: "normalize_spectrum (Arr1 xs) = Inr (Arr1 ys)" "nanmedian ys = Fin 1"
    by blast
  from normalize_spectrum_median_1d [OF ys(2)] ys(1) show ?thesis
    by auto
qed

lemma normalize_spectrum_median_2d:
  assumes "i < nrows g" and "nanmedian (rows g ! i) = Fin m" and "m \<noteq> 0"
  shows "\<exists>h. normalize_spectrum (Arr2 g) = Inr (Arr2 h) \<and> nrows h = nrows g \<and>
           nanmedian (rows h ! i) = Fin 1"
  using nanmedian_scale [OF assms(2,3)] assms
  by (simp add: normalize_spectrum_def nrows_def)

lemma normalize_spectrum_twice_2d:
  assumes "i < nrows g" and "nanmedian (rows g ! i) = Fin m" and "m \<noteq> 0"
  shows "\<exists>h k. normalize_spectrum (Arr2 g) = Inr (Arr2 h) \<and>
           normalize_spectrum (Arr2 h) = Inr (Arr2 k) \<and> nanmedian (rows k ! i) = Fin 1"
proof -
  from normalize_spectrum_median_2d [OF assms] obtain h where
    h: "normalize_spectrum (Arr2 g) = Inr (Arr2 h)" "nrows h = nrows g"
      "nanmedian (rows h ! i) = Fin 1"
    by blast
  from assms(1) h(2) have "i < nrows h" by simp
  from normalize_spectrum_median_2d [OF this h(3)] h(1) show ?thesis
    by auto
qed

section \<open>C1: what the binners return\<close>



section \<open>C2: the binned time axis against the binned flux grid\<close>

text \<open>
  C2 says that after binning a grid of shape \<open>(W, T)\<close> by \<open>b\<close> the strided time axis
  \<open>times[::b]\<close> is as long as the binned grid has columns, \<open>T div b\<close>. The source
  says the same (\<open>Adjust times array to match binned data\<close>), but the stride keeps
  one timestamp per started window. With \<open>T = 5\<close> and \<open>b = 2\<close>: the binned grid has
  2 columns, the time axis 3 entries, and \<open>plot_specific_wavelength_lightcurves\<close>
  pairs 3 elapsed hours with light curves of 2 values.
\<close>

theorem time_axis_longer_than_flux:
  "bin_flux_array \<lparr>ncols = 5, rows = [[Fin 1, Fin 2, Fin 3, Fin 4, Fin 5]]\<rparr> (PyInt 2)
     = Inr \<lparr>ncols = 2, rows = [[Fin (3 / 2), Fin (7 / 2)]]\<rparr> \<and>
   slice_step 2 [Fin 0, Fin 1, Fin 2, Fin 3, Fin 4] = Inr [Fin 0, Fin 2, Fin 4] \<and>
   plot_specific_wavelength_lightcurves
       \<lparr>ncols = 5, rows = [[Fin 1, Fin 2, Fin 3, Fin 4, Fin 5]]\<rparr>
       [Fin (23 / 10)] [Fin 0, Fin 1, Fin 2, Fin 3, Fin 4] (PyInt 2)
     = Inr ([Fin 0, Fin 48, Fin 96], [Fin (3 / 5), Fin (7 / 5)], [NaN, NaN])"
  by code_simp

section \<open>C3: the variability map\<close>

text \<open>
  C3. In \<open>plot_enhanced_lightcurve_map\<close> with \<open>plot_type = 'variability'\<close>, the
  returned z at \<open>(w, t)\<close>, which is position \<open>(w + 60, t)\<close> of the binned flux grid
  because of the leading trim, is \<open>((flux / nanmedian of the flux row) - 1) * 100\<close>
  where the binned flux is finite and NaN where it is not.
\<close>

theorem variability_values:
  assumes "plot_enhanced_lightcurve_map g wl ts b ''variability'' = Inr (Some r)"
    and "bin_flux_array g b = Inr f"
    and "w < nrows (z_data r)" and "t < length (rows (z_data r) ! w)"
  shows "w + 60 < nrows f \<and> t < length (rows f ! (w + 60)) \<and>
         rows (z_data r) ! w ! t =
           (if isfinite (rows f ! (w + 60) ! t)
            then fmul (fsub (fdiv (rows f ! (w + 60) ! t) (nanmedian (rows f ! (w + 60))))
                        (Fin 1)) (Fin 100)
            else NaN)"
proof -
  let ?F = "\<lambda>r. map (\<lambda>x. if isfinite x
                        then fmul (fsub (fdiv x (nanmedian r)) (Fin 1)) (Fin 100)
                        else NaN) r"
  define pt where "pt = ''variability''"
  from assms(1) have "plot_enhanced_lightcurve_map g wl ts b pt = Inr (Some r)"
    by (simp only: pt_def)
  then obtain n f' z where inv:
    "py_int b = Inr n"
    "bin_flux_array g (PyInt n) = Inr f'"
    "pt = ''variability'' \<and> z = \<lparr>ncols = ncols f', rows = map ?F (rows f')\<rparr>
     \<or> pt = ''flux'' \<and> z = f'"
    "z_data r = drop_rows 60 z"
    by (rule plot_map_SomeD)
  from inv(1,2) assms(2) have f': "f' = f"
    by (simp add: bin_flux_array_py_int [of g b])
  from inv(3) have z: "rows (z_data r) = drop 60 (map ?F (rows f))"
    by (simp add: inv(4) f' drop_rows_def pt_def)
  from assms(3) have w: "w + 60 < length (rows f)"
    by (simp add: nrows_def z)
  then have row: "rows (z_data r) ! w = ?F (rows f ! (w + 60))"
    by (simp add: z add.commute)
  from assms(4) have t: "t < length (rows f ! (w + 60))"
    by (simp add: row)
  from w t show ?thesis
    by (simp add: row nrows_def)
qed

theorem variability_values_witness:
  "plot_enhanced_lightcurve_map example_flux example_wavelengths example_times (PyInt 2)
     ''variability'' = Inr (Some (example_map [[Fin (- 20), Fin 20]])) \<and>
   bin_flux_array example_flux (PyInt 2) = Inr example_binned \<and>
   0 < nrows (z_data (example_map [[Fin (- 20), Fin 20]])) \<and>
   1 < length (rows (z_data (example_map [[Fin (- 20), Fin 20]])) ! 0) \<and>
   rows (z_data (example_map [[Fin (- 20), Fin 20]])) ! 0 ! 1 =
     (if isfinite (rows example_binned ! (0 + 60) ! 1)
      then fmul (fsub (fdiv (rows example_binned ! (0 + 60) ! 1)
                        (nanmedian (rows example_binned ! (0 + 60)))) (Fin 1)) (Fin 100)
      else NaN) \<and>
   rows example_binned ! (0 + 60) ! 1 = Fin (15 / 2) \<and>
   nanmedian (rows example_binned ! (0 + 60)) = Fin (25 / 4)"
proof -
  have w: "0 < nrows (z_data (example_map [[Fin (- 20), Fin 20]]))"
    by (simp add: nrows_def)
  have t: "1 < length (rows (z_data (example_map [[Fin (- 20), Fin 20]])) ! 0)"
    by simp
  have row: "rows example_binned ! (0 + 60) = [Fin 5, Fin (15 / 2)]"
    by (simp add: nth_append)
  have med: "nanmedian [Fin 5, Fin (15 / 2)] = Fin (25 / 4)"
    by code_simp
  from variability_values [OF example_variability_run example_binning w t] row med
  show ?thesis
    using example_variability_run example_binning w t by simp
qed

section \<open>C4: reshaping the MIRI table\<close>

text \<open>
  C4 as stated, for one channel with \<open>U\<close> unique wavelengths in a table of \<open>R\<close>
  rows: \<open>extract_miri_data\<close> succeeds if and only if \<open>R mod U = 0\<close>. The function
  reshapes both channels, so it fails on a table whose channel A divides evenly
  (\<open>U = 1\<close>, \<open>R = 3\<close>) as soon as channel B does not (\<open>U = 2\<close>).
\<close>

theorem extract_other_channel_counterexample:
  "length (np_unique (map wla table3)) = 1 \<and>
   length table3 mod length (np_unique (map wla table3)) = 0 \<and>
   length (np_unique (map wlb table3)) = 2 \<and>
   extract_miri_data table3 = Inl ValueError"
  by code_simp

text \<open>
  C4, amended. For a table with at least one row, \<open>extract_miri_data\<close> succeeds if
  and only if the row count is a multiple of the number of unique wavelengths of
  channel A and of channel B; otherwise it fails, with \<open>ValueError\<close>. On success the
  grid of each channel has shape \<open>(U, R div U)\<close> for that channel's \<open>U\<close>, and read
  row by row it is the channel's flux column again.
\<close>

theorem extract_shape:
  assumes "table \<noteq> []"
  shows "((\<exists>res. extract_miri_data table = Inr res) \<longleftrightarrow>
            length table mod length (np_unique (map wla table)) = 0 \<and>
            length table mod length (np_unique (map wlb table)) = 0) \<and>
         ((\<forall>res. extract_miri_data table \<noteq> Inr res) \<longrightarrow>
            extract_miri_data table = Inl ValueError) \<and>
         (\<forall>ut ua ub ga gb. extract_miri_data table = Inr (ut, ua, ub, ga, gb) \<longrightarrow>
            ut = np_unique (map MJD table) \<and>
            ua = np_unique (map wla table) \<and> ub = np_unique (map wlb table) \<and>
            shape_is ga (length ua) (length table div length ua) \<and>
            concat (rows ga) = map fluxa table \<and>
            shape_is gb (length ub) (length table div length ub) \<and>
            concat (rows gb) = map fluxb table)"
proof -
  let ?ua = "np_unique (map wla table)" and ?ub = "np_unique (map wlb table)"
  from assms have pos: "length ?ua \<noteq> 0" "length ?ub \<noteq> 0"
    using np_unique_nonempty [of "map wla table"] np_unique_nonempty [of "map wlb table"]
    by simp_all
  have iff: "(\<exists>res. extract_miri_data table = Inr res) \<longleftrightarrow>
      length table mod length ?ua = 0 \<and> length table mod length ?ub = 0"
    using pos by (auto simp: extract_miri_data_def Let_def reshape_rows_eq)
  have err: "extract_miri_data table = Inl ValueError"
    if "\<forall>res. extract_miri_data table \<noteq> Inr res"
    using that pos by (auto simp: extract_miri_data_def Let_def reshape_rows_eq split: if_splits)
  have ok: "ut = np_unique (map MJD table) \<and> ua = ?ua \<and> ub = ?ub \<and>
      shape_is ga (length ua) (length table div length ua) \<and>
      concat (rows ga) = map fluxa table \<and>
      shape_is gb (length ub) (length table div length ub) \<and>
      concat (rows gb) = map fluxb table"
    if "extract_miri_data table = Inr (ut, ua, ub, ga, gb)" for ut ua ub ga gb
  proof -
    from that have parts: "ut = np_unique (map MJD table)" "ua = ?ua" "ub = ?ub"
      "reshape_rows (map fluxa table) (length ?ua) = Inr ga"
      "reshape_rows (map fluxb table) (length ?ub) = Inr gb"
      by (auto simp: extract_miri_data_def Let_def split: sum.splits)
    from reshape_rows_shape [OF parts(4)] reshape_rows_shape [OF parts(5)] parts(1-3)
    show ?thesis by simp
  qed
  from iff err ok show ?thesis by blast
qed

theorem extract_shape_witness:
  "table4 \<noteq> [] \<and>
   length table4 mod length (np_unique (map wla table4)) = 0 \<and>
   length table4 mod length (np_unique (map wlb table4)) = 0 \<and>
   extract_miri_data table4 =
     Inr ([Fin 0, Fin 1], [Fin 1, Fin 2], [Fin 3, Fin 4],
          \<lparr>ncols = 2, rows = [[Fin 10, Fin 11], [Fin 12, Fin 13]]\<rparr>,
          \<lparr>ncols = 2, rows = [[Fin 20, Fin 21], [Fin 22, Fin 23]]\<rparr>) \<and>
   shape_is \<lparr>ncols = 2, rows = [[Fin 10, Fin 11], [Fin 12, Fin 13]]\<rparr> 2 2 \<and>
   concat (rows \<lparr>ncols = 2, rows = [[Fin 10, Fin 11], [Fin 12, Fin 13]]\<rparr>) = map fluxa table4"
proof -
  have ne: "table4 \<noteq> []" by simp
  have m: "length table4 mod length (np_unique (map wla table4)) = 0"
    "length table4 mod length (np_unique (map wlb table4)) = 0"
    by code_simp+
  from extract_shape [OF ne] m obtain res where res: "extract_miri_data table4 = Inr res"
    by blast
  have run: "extract_miri_data table4 =
     Inr ([Fin 0, Fin 1], [Fin 1, Fin 2], [Fin 3, Fin 4],
          \<lparr>ncols = 2, rows = [[Fin 10, Fin 11], [Fin 12, Fin 13]]\<rparr>,
          \<lparr>ncols = 2, rows = [[Fin 20, Fin 21], [Fin 22, Fin 23]]\<rparr>)"
    by code_simp
  from extract_shape [OF ne] run
  have "shape_is \<lparr>ncols = 2, rows = [[Fin 10, Fin 11], [Fin 12, Fin 13]]\<rparr>
          (length [Fin 1, Fin 2 :: fl]) (length table4 div length [Fin 1, Fin 2 :: fl]) \<and>
        concat (rows \<lparr>ncols = 2, rows = [[Fin 10, Fin 11], [Fin 12, Fin 13]]\<rparr>) = map fluxa table4"
    by blast
  with ne m run show ?thesis
    by (simp add: shape_is_def nrows_def wf_grid_def)
qed

section \<open>C5: a bin size that is not a positive integer\<close>




section \<open>C6: nothing left to plot\<close>




section \<open>C7: normalizing the band light curves\<close>

text \<open>
  C7 as stated: each band's series \<open>s\<close> is divided by its NaN-aware median, as
  \<open>normalize_spectrum\<close> does for a one-dimensional array. The source divides by
  \<open>np.median(s)\<close>, which is NaN as soon as \<open>s\<close> holds a NaN: for the binned row
  \<open>[1, NaN, 3]\<close> the light curve is NaN throughout, where the NaN-aware median 2
  gives \<open>[1/2, NaN, 3/2]\<close>.
\<close>

theorem nan_in_series_counterexample:
  "plot_specific_wavelength_lightcurves \<lparr>ncols = 3, rows = [[Fin 1, NaN, Fin 3]]\<rparr>
       [Fin (23 / 10)] [Fin 0, Fin 1, Fin 2] (PyInt 1)
     = Inr ([Fin 0, Fin 24, Fin 48], [NaN, NaN, NaN], [NaN, NaN, NaN]) \<and>
   bin_flux_array \<lparr>ncols = 3, rows = [[Fin 1, NaN, Fin 3]]\<rparr> (PyInt 1)
     = Inr \<lparr>ncols = 3, rows = [[Fin 1, NaN, Fin 3]]\<rparr> \<and>
   band_series ch4_range [Fin (23 / 10)] \<lparr>ncols = 3, rows = [[Fin 1, NaN, Fin 3]]\<rparr>
     = Inr [Fin 1, NaN, Fin 3] \<and>
   nanmedian [Fin 1, NaN, Fin 3] = Fin 2 \<and>
   map (\<lambda>v. fdiv v (nanmedian [Fin 1, NaN, Fin 3])) [Fin 1, NaN, Fin 3]
     = [Fin (1 / 2), NaN, Fin (3 / 2)] \<and>
   normalize_spectrum (Arr1 [Fin 1, NaN, Fin 3]) = Inr (Arr1 [Fin (1 / 2), NaN, Fin (3 / 2)])"
  by code_simp

text \<open>
  C7, amended. Each band's series \<open>s\<close> (the mean over the band's rows of the binned
  flux, per time bin) is divided by \<open>np.median(s)\<close>. When \<open>s\<close> holds no NaN this is
  what \<open>normalize_spectrum\<close> returns for \<open>s\<close>; when \<open>s\<close> holds a NaN every value of
  the light curve is NaN.
\<close>

theorem lightcurve_plain_median:
  assumes "plot_specific_wavelength_lightcurves g wl ts b = Inr (hours, ch4, co)"
    and "bin_flux_array g b = Inr f"
  shows "\<exists>s1 s2.
           band_series ch4_range wl f = Inr s1 \<and> band_series co_range wl f = Inr s2 \<and>
           ch4 = map (\<lambda>v. fdiv v (np_median s1)) s1 \<and>
           co = map (\<lambda>v. fdiv v (np_median s2)) s2 \<and>
           (\<not> list_ex isnan s1 \<longrightarrow> normalize_spectrum (Arr1 s1) = Inr (Arr1 ch4)) \<and>
           (\<not> list_ex isnan s2 \<longrightarrow> normalize_spectrum (Arr1 s2) = Inr (Arr1 co)) \<and>
           (list_ex isnan s1 \<longrightarrow> list_all isnan ch4) \<and>
           (list_ex isnan s2 \<longrightarrow> list_all isnan co)"
proof -
  from assms(1) obtain n f' s1 s2 where inv:
    "py_int b = Inr n" "bin_flux_array g (PyInt n) = Inr f'"
    "band_series ch4_range wl f' = Inr s1" "band_series co_range wl f' = Inr s2"
    "ch4 = map (\<lambda>v. fdiv v (np_median s1)) s1"
    "co = map (\<lambda>v. fdiv v (np_median s2)) s2"
    unfolding plot_specific_wavelength_lightcurves_def Let_def
    by (auto split: sum.splits)
  from inv(1,2) assms(2) have f': "f' = f"
    by (simp add: bin_flux_array_py_int [of g b])
  have norm: "normalize_spectrum (Arr1 s) = Inr (Arr1 (map (\<lambda>v. fdiv v (np_median s)) s))"
    if "\<not> list_ex isnan s" for s
    using np_median_no_nan [OF that] by (simp add: normalize_spectrum_def)
  have nan: "list_all isnan (map (\<lambda>v. fdiv v (np_median s)) s)" if "list_ex isnan s" for s
    using np_median_nan [OF that] by (simp add: list_all_iff fdiv_NaN)
  from inv(3-6) norm nan show ?thesis
    unfolding f' by blast
qed

theorem lightcurve_plain_median_witness:
  "plot_specific_wavelength_lightcurves small_flux [Fin (23 / 10), Fin (46 / 10)]
       [Fin 0, Fin 1, Fin 2, Fin 3] (PyInt 2)
     = Inr ([Fin 0, Fin 48], [Fin (3 / 5), Fin (7 / 5)], [Fin (11 / 13), Fin (15 / 13)]) \<and>
   bin_flux_array small_flux (PyInt 2)
     = Inr \<lparr>ncols = 2, rows = [[Fin (3 / 2), Fin (7 / 2)], [Fin (11 / 2), Fin (15 / 2)]]\<rparr> \<and>
   band_series ch4_range [Fin (23 / 10), Fin (46 / 10)]
       \<lparr>ncols = 2, rows = [[Fin (3 / 2), Fin (7 / 2)], [Fin (11 / 2), Fin (15 / 2)]]\<rparr>
     = Inr [Fin (3 / 2), Fin (7 / 2)] \<and>
   \<not> list_ex isnan [Fin (3 / 2), Fin (7 / 2)] \<and>
   normalize_spectrum (Arr1 [Fin (3 / 2), Fin (7 / 2)]) = Inr (Arr1 [Fin (3 / 5), Fin (7 / 5)])"
proof -
  let ?wl = "[Fin (23 / 10), Fin (46 / 10)]"
  let ?f = "\<lparr>ncols = 2, rows = [[Fin (3 / 2), Fin (7 / 2)], [Fin (11 / 2), Fin (15 / 2)]]\<rparr> :: grid"
  have run: "plot_specific_wavelength_lightcurves small_flux ?wl [Fin 0, Fin 1, Fin 2, Fin 3] (PyInt 2)
     = Inr ([Fin 0, Fin 48], [Fin (3 / 5), Fin (7 / 5)], [Fin (11 / 13), Fin (15 / 13)])"
    by code_simp
  have b: "bin_flux_array small_flux (PyInt 2) = Inr ?f" by code_simp
  have s: "band_series ch4_range ?wl ?f = Inr [Fin (3 / 2), Fin (7 / 2)]" by code_simp
  have nn: "\<not> list_ex isnan [Fin (3 / 2), Fin (7 / 2)]" by simp
  from lightcurve_plain_median [OF run b] s nn
  have "normalize_spectrum (Arr1 [Fin (3 / 2), Fin (7 / 2)]) = Inr (Arr1 [Fin (3 / 5), Fin (7 / 5)])"
    by auto
  with run b s nn show ?thesis by blast
qed

section \<open>C8: the flux map\<close>

text \<open>
  C8. With \<open>plot_type = 'flux'\<close> the returned z is the binned flux grid without its
  first 60 rows, every remaining row unchanged, and the time grid and wavelength
  grid are laid out over the wavelengths from the 61st on.
\<close>

theorem flux_mode_identity:
  assumes "plot_enhanced_lightcurve_map g wl ts b ''flux'' = Inr (Some r)"
    and "bin_flux_array g b = Inr f"
  shows "z_data r = drop_rows 60 f \<and>
         (\<forall>w < nrows (z_data r). rows (z_data r) ! w = rows f ! (w + 60)) \<and>
         (\<exists>hours m. rows (time_grid r) = map (\<lambda>_. hours) (drop 60 wl) \<and>
                    rows (wavelength_grid r) = map (replicate m) (drop 60 wl))"
proof -
  define pt where "pt = ''flux''"
  from assms(1) have "plot_enhanced_lightcurve_map g wl ts b pt = Inr (Some r)"
    by (simp only: pt_def)
  then obtain n f' ts1 t0 z where inv:
    "py_int b = Inr n"
    "bin_flux_array g (PyInt n) = Inr f'"
    "pt = ''variability'' \<and>
       z = \<lparr>ncols = ncols f',
            rows = map (\<lambda>r. map (\<lambda>x. if isfinite x
                                       then fmul (fsub (fdiv x (nanmedian r)) (Fin 1)) (Fin 100)
                                       else NaN) r) (rows f')\<rparr>
     \<or> pt = ''flux'' \<and> z = f'"
    "time_grid r = drop_rows 60 (take_cols (ncols f')
        (fst (meshgrid (map (\<lambda>t. fmul (fsub t t0) (Fin 24)) ts1) wl)))"
    "wavelength_grid r = drop_rows 60 (take_cols (ncols f')
        (snd (meshgrid (map (\<lambda>t. fmul (fsub t t0) (Fin 24)) ts1) wl)))"
    "z_data r = drop_rows 60 z"
    by (rule plot_map_SomeD)
  from inv(1,2) assms(2) have f': "f' = f"
    by (simp add: bin_flux_array_py_int [of g b])
  from inv(3) have z: "z_data r = drop_rows 60 f"
    by (simp add: inv(6) f' pt_def)
  have "rows (z_data r) ! w = rows f ! (w + 60)" if "w < nrows (z_data r)" for w
    using that by (simp add: z drop_rows_def nrows_def add.commute)
  moreover have "\<exists>hours m. rows (time_grid r) = map (\<lambda>_. hours) (drop 60 wl) \<and>
      rows (wavelength_grid r) = map (replicate m) (drop 60 wl)"
    by (simp add: inv(4,5) drop_rows_def take_cols_def meshgrid_def drop_map)
  ultimately show ?thesis using z by blast
qed

theorem flux_mode_identity_witness:
  "plot_enhanced_lightcurve_map example_flux example_wavelengths example_times (PyInt 2) ''flux''
     = Inr (Some (example_map [[Fin 5, Fin (15 / 2)]])) \<and>
   bin_flux_array example_flux (PyInt 2) = Inr example_binned \<and>
   z_data (example_map [[Fin 5, Fin (15 / 2)]]) = drop_rows 60 example_binned \<and>
   rows (z_data (example_map [[Fin 5, Fin (15 / 2)]])) ! 0 = rows example_binned ! (0 + 60)"
proof -
  have "0 < nrows (z_data (example_map [[Fin 5, Fin (15 / 2)]]))"
    by (simp add: nrows_def)
  with flux_mode_identity [OF example_flux_run example_binning]
  show ?thesis
    using example_flux_run example_binning by blast
qed

section \<open>C10: the shapes of the returned arrays\<close>

text \<open>
  C10. For a flux grid of shape \<open>(W, T)\<close> with \<open>W > 60\<close>, wavelengths of length \<open>W\<close>,
  times of length \<open>T\<close> and a positive \<open>bin_size\<close> \<open>b\<close>, the time grid, wavelength grid,
  z grid and both band masks that \<open>plot_enhanced_lightcurve_map\<close> builds all have
  shape \<open>(W - 60, T div b)\<close>, whether or not \<open>b\<close> divides \<open>T\<close>.
\<close>

theorem map_shapes:
  assumes "wf_grid g" and "60 < nrows g" and "py_int b = Inr n" and "0 < n"
    and "length wl = nrows g" and "length ts = ncols g"
    and "plot_enhanced_lightcurve_map g wl ts b pt = Inr (Some r)"
  shows "shape_is (time_grid r) (nrows g - 60) (ncols g div nat n) \<and>
         shape_is (wavelength_grid r) (nrows g - 60) (ncols g div nat n) \<and>
         shape_is (z_data r) (nrows g - 60) (ncols g div nat n) \<and>
         shape_is (ch4_mask r) (nrows g - 60) (ncols g div nat n) \<and>
         shape_is (co_mask r) (nrows g - 60) (ncols g div nat n)"
proof -
  let ?q = "ncols g div nat n"
  from assms(7) obtain n' f ts1 t0 z where inv:
    "py_int b = Inr n'"
    "bin_flux_array g (PyInt n') = Inr f"
    "slice_step n' ts = Inr ts1"
    "pt = ''variability'' \<and>
       z = \<lparr>ncols = ncols f,
            rows = map (\<lambda>r. map (\<lambda>x. if isfinite x
                                       then fmul (fsub (fdiv x (nanmedian r)) (Fin 1)) (Fin 100)
                                       else NaN) r) (rows f)\<rparr>
     \<or> pt = ''flux'' \<and> z = f"
    "time_grid r = drop_rows 60 (take_cols (ncols f)
        (fst (meshgrid (map (\<lambda>t. fmul (fsub t t0) (Fin 24)) ts1) wl)))"
    "wavelength_grid r = drop_rows 60 (take_cols (ncols f)
        (snd (meshgrid (map (\<lambda>t. fmul (fsub t t0) (Fin 24)) ts1) wl)))"
    "z_data r = drop_rows 60 z"
    "ch4_mask r = band_mask ch4_range (wavelength_grid r)"
    "co_mask r = band_mask co_range (wavelength_grid r)"
    by (rule plot_map_SomeD)
  from inv(1) assms(3) have n': "n' = n" by simp
  have f: "shape_is f (nrows g) ?q"
    using shape_is_binned [OF assms(4,1)] inv(2) n' by simp
  have ts1: "ts1 = stride (nat n) ts"
    using inv(3) assms(4) n' by (simp add: slice_step_def)
  have "0 < nat n" using assms(4) by simp
  then have "ncols g \<le> ncols g + nat n - 1" by linarith
  then have "?q \<le> (ncols g + nat n - 1) div nat n"
    by (rule div_le_mono)
  then have enough: "?q \<le> length (map (\<lambda>t. fmul (fsub t t0) (Fin 24)) ts1)"
    using assms(4,6) by (simp add: ts1 length_stride)
  have qf: "ncols f = ?q" using f by (simp add: shape_is_def)
  have z: "shape_is z (nrows g) ?q"
    using inv(4) f by (auto simp: shape_is_def nrows_def wf_grid_def list_all_iff)
  have tg: "shape_is (time_grid r) (nrows g - 60) ?q"
    unfolding inv(5) qf assms(5) [symmetric]
    by (rule shape_is_drop_rows, rule shape_is_take_cols [OF shape_is_meshgrid(1) enough])
  have wg: "shape_is (wavelength_grid r) (nrows g - 60) ?q"
    unfolding inv(6) qf assms(5) [symmetric]
    by (rule shape_is_drop_rows, rule shape_is_take_cols [OF shape_is_meshgrid(2) enough])
  have zd: "shape_is (z_data r) (nrows g - 60) ?q"
    unfolding inv(7) by (rule shape_is_drop_rows [OF z])
  from tg wg zd show ?thesis
    by (simp add: inv(8,9) shape_is_band_mask)
qed

theorem map_shapes_witness:
  "wf_grid example_flux \<and> 60 < nrows example_flux \<and> py_int (PyInt 2) = Inr 2 \<and> (0::int) < 2 \<and>
   length example_wavelengths = nrows example_flux \<and>
   length example_times = ncols example_flux \<and>
   plot_enhanced_lightcurve_map example_flux example_wavelengths example_times (PyInt 2) ''flux''
     = Inr (Some (example_map [[Fin 5, Fin (15 / 2)]])) \<and>
   shape_is (time_grid (example_map [[Fin 5, Fin (15 / 2)]])) 1 2 \<and>
   shape_is (wavelength_grid (example_map [[Fin 5, Fin (15 / 2)]])) 1 2 \<and>
   shape_is (z_data (example_map [[Fin 5, Fin (15 / 2)]])) 1 2 \<and>
   shape_is (ch4_mask (example_map [[Fin 5, Fin (15 / 2)]])) 1 2 \<and>
   shape_is (co_mask (example_map [[Fin 5, Fin (15 / 2)]])) 1 2"
proof -
  have h2: "60 < nrows example_flux" by (simp add: nrows_def)
  have h3: "py_int (PyInt 2) = Inr 2" by simp
  have h4: "(0::int) < 2" by simp
  have h5: "length example_wavelengths = nrows example_flux" by (simp add: nrows_def)
  have h6: "length example_times = ncols example_flux" by simp
  have "nrows example_flux - 60 = 1" "ncols example_flux div nat 2 = 2"
    by (simp_all add: nrows_def)
  with map_shapes [OF example_wf h2 h3 h4 h5 h6 example_flux_run]
  show ?thesis
    using example_wf h2 h3 h4 h5 h6 example_flux_run by simp
qed

end
